theory Spec2Isabelle
  imports Main
begin

section \<open>Calendar time, as Python's \<open>datetime\<close> holds it\<close>

text \<open>
  \<open>datetime.now()\<close> returns a naive \<open>datetime\<close> object: seven integer fields. The type
  itself only admits the values described by \<open>valid_datetime\<close> (years \<open>MINYEAR = 1\<close> to
  \<open>MAXYEAR = 9999\<close>, a day that exists in its month, and so on).
\<close>

record datetime =
  year :: nat
  month :: nat
  day :: nat
  hour :: nat
  minute :: nat
  second :: nat
  microsecond :: nat

definition is_leap :: "nat \<Rightarrow> bool" where
  "is_leap y = (y mod 4 = 0 \<and> (0 < y mod 100 \<or> y mod 400 = 0))"

definition days_in_month :: "nat \<Rightarrow> nat \<Rightarrow> nat" where
  "days_in_month y m =
     (if m = 2 then (if is_leap y then 29 else 28)
      else if m = 4 \<or> m = 6 \<or> m = 9 \<or> m = 11 then 30
      else 31)"

definition valid_datetime :: "datetime \<Rightarrow> bool" where
  "valid_datetime dt =
     (1 \<le> year dt \<and> year dt \<le> 9999 \<and>
      1 \<le> month dt \<and> month dt \<le> 12 \<and>
      1 \<le> day dt \<and> day dt \<le> days_in_month (year dt) (month dt) \<and>
      hour dt < 24 \<and> minute dt < 60 \<and> second dt < 60 \<and>
      microsecond dt < 1000000)"

section \<open>\<open>strftime\<close>\<close>

text \<open>
  The program formats a \<open>datetime\<close> with the directives \<open>%Y %m %d %H %M %S\<close> only.
  CPython hands the format to the C library. \<open>%m %d %H %M %S\<close> are decimal numbers padded
  with zeros to two digits. \<open>%Y\<close> is the year as a decimal number, which glibc prints
  without padding: a year below 1000 has fewer than four digits (\<open>999\<close>, not \<open>0999\<close>).
  Padding never truncates: a number wider than the field is printed in full, as C's
  \<open>%02d\<close> does.
\<close>

definition digit_char :: "nat \<Rightarrow> char" where
  "digit_char n = ''0123456789'' ! (n mod 10)"

function decimal :: "nat \<Rightarrow> string" where
  "decimal n = (if n < 10 then [digit_char n] else decimal (n div 10) @ [digit_char n])"
  by pat_completeness auto
termination
  by (relation "measure id") auto

declare decimal.simps [simp del]

definition zero_pad :: "nat \<Rightarrow> nat \<Rightarrow> string" where
  "zero_pad w n = replicate (w - length (decimal n)) (CHR ''0'') @ decimal n"

definition directive :: "char \<Rightarrow> datetime \<Rightarrow> string" where
  "directive c dt =
     (if c = CHR ''Y'' then decimal (year dt)
      else if c = CHR ''m'' then zero_pad 2 (month dt)
      else if c = CHR ''d'' then zero_pad 2 (day dt)
      else if c = CHR ''H'' then zero_pad 2 (hour dt)
      else if c = CHR ''M'' then zero_pad 2 (minute dt)
      else if c = CHR ''S'' then zero_pad 2 (second dt)
      else if c = CHR ''%'' then ''%''
      else [CHR ''%'', c])"

text \<open>\<open>strftime fmt dt\<close> is Python's \<open>dt.strftime(fmt)\<close>: directives are replaced, every
  other character is copied.\<close>

fun strftime :: "string \<Rightarrow> datetime \<Rightarrow> string" where
  "strftime [] dt = []"
| "strftime [c] dt = [c]"
| "strftime (c # d # rest) dt =
     (if c = CHR ''%'' then directive d dt @ strftime rest dt
      else c # strftime (d # rest) dt)"

section \<open>The filesystem, the open handles and standard output\<close>

text \<open>
  The world the program acts on: the files of the working directory (name to text), the
  handles currently open (by file name, one entry per handle) and what has been printed on
  standard output.
\<close>

record world =
  files :: "string \<Rightarrow> string option"
  open_handles :: "string list"
  stdout :: string

text \<open>Python raises \<open>OSError\<close> for every failure of \<open>open\<close> and \<open>write\<close>: the single
  error kind of the program.\<close>

datatype error = FileSystemError

text \<open>
  Whether and where the filesystem fails is decided by the environment, not by the program:
  it is an input of the model. \<open>OpenFails\<close>: the file cannot be opened (directory not
  writable, invalid path). \<open>WriteFails k\<close>: the file was opened, and the write fails after
  \<open>k\<close> characters have reached the file (disk full).
\<close>

datatype fault = NoFault | OpenFails | WriteFails nat

text \<open>\<open>open(name, 'w')\<close>: creates the file, or truncates it when it exists, and returns a
  handle on it.\<close>

definition open_w :: "fault \<Rightarrow> string \<Rightarrow> world \<Rightarrow> (error + string) \<times> world" where
  "open_w flt name w =
     (if flt = OpenFails then (Inl FileSystemError, w)
      else (Inr name,
            w\<lparr>files := (files w)(name \<mapsto> []), open_handles := name # open_handles w\<rparr>))"

definition current_text :: "world \<Rightarrow> string \<Rightarrow> string" where
  "current_text w f = (case files w f of None \<Rightarrow> [] | Some old \<Rightarrow> old)"

text \<open>\<open>f.write(s)\<close>: the text goes after what the handle has written so far.\<close>

definition f_write :: "fault \<Rightarrow> string \<Rightarrow> string \<Rightarrow> world \<Rightarrow> (error + unit) \<times> world" where
  "f_write flt f s w =
     (case flt of
        WriteFails k \<Rightarrow>
          (Inl FileSystemError, w\<lparr>files := (files w)(f \<mapsto> current_text w f @ take k s)\<rparr>)
      | _ \<Rightarrow> (Inr (), w\<lparr>files := (files w)(f \<mapsto> current_text w f @ s)\<rparr>))"

text \<open>Leaving the \<open>with\<close> block closes the handle, on the normal path and on the
  exceptional one.\<close>

definition f_close :: "string \<Rightarrow> world \<Rightarrow> world" where
  "f_close f w = w\<lparr>open_handles := remove1 f (open_handles w)\<rparr>"

definition print :: "string \<Rightarrow> world \<Rightarrow> world" where
  "print s w = w\<lparr>stdout := stdout w @ s @ [CHR 0x0A]\<rparr>"

section \<open>The program: \<open>hello_world.py\<close>\<close>

text \<open>Lines 8 and 9: the file name, from the first clock read.\<close>

definition hello_filename :: "datetime \<Rightarrow> string" where
  "hello_filename T1 =
     (let timestamp = strftime ''%Y%m%d_%H%M%S'' T1
      in ''hello_world_'' @ timestamp @ ''.md'')"

text \<open>Lines 11 to 16: the content, from the second clock read. The triple-quoted literal
  ends with a line break after the message line.\<close>

definition hello_content :: "datetime \<Rightarrow> string" where
  "hello_content T2 =
     ''# Hello World'' @ [CHR 0x0A, CHR 0x0A] @
     ''Generated at: '' @ strftime ''%Y-%m-%d %H:%M:%S'' T2 @ [CHR 0x0A, CHR 0x0A] @
     ''**Message:** Hello World!'' @ [CHR 0x0A]"

text \<open>
  \<open>create_hello_world_file\<close>. \<open>T1\<close> and \<open>T2\<close> are what the two calls of
  \<open>datetime.now()\<close> return, in that order. The result is the returned file name, or the
  exception that leaves the function, together with the world afterwards.
\<close>

definition create_hello_world_file ::
  "datetime \<Rightarrow> datetime \<Rightarrow> fault \<Rightarrow> world \<Rightarrow> (error + string) \<times> world" where
  "create_hello_world_file T1 T2 flt w =
     (let filename = hello_filename T1;
          content = hello_content T2
      in case open_w flt filename w of
           (Inl e, w1) \<Rightarrow> (Inl e, w1)
         | (Inr f, w1) \<Rightarrow>
             (case f_write flt f content w1 of
                (Inl e, w2) \<Rightarrow> (Inl e, f_close f w2)
              | (Inr _, w2) \<Rightarrow> (Inr filename, f_close f w2)))"

text \<open>
  Lines 23 to 25, the module body. \<open>name\<close> is the module's \<open>__name__\<close>. The result is the
  exit status of the interpreter and the world afterwards: status 0 when the module body
  ends normally, status 1 when an exception reaches the top level uncaught (there is no
  \<open>try\<close> in the file).
\<close>

definition hello_world_module ::
  "string \<Rightarrow> datetime \<Rightarrow> datetime \<Rightarrow> fault \<Rightarrow> world \<Rightarrow> nat \<times> world" where
  "hello_world_module name T1 T2 flt w =
     (if name = ''__main__'' then
        (case create_hello_world_file T1 T2 flt w of
           (Inl e, w1) \<Rightarrow> (1, w1)
         | (Inr created_file, w1) \<Rightarrow> (0, print (''Created file: '' @ created_file) w1))
      else (0, w))"

text \<open>Running the program is executing the file as a script.\<close>

definition program :: "datetime \<Rightarrow> datetime \<Rightarrow> fault \<Rightarrow> world \<Rightarrow> nat \<times> world" where
  "program T1 T2 flt w = hello_world_module ''__main__'' T1 T2 flt w"

section \<open>Vocabulary of the specification\<close>

definition is_digit :: "char \<Rightarrow> bool" where
  "is_digit c = (c \<in> set ''0123456789'')"

text \<open>\<open>matches_shape p s\<close>: the text \<open>s\<close> has the shape \<open>p\<close>, where \<open>#\<close> in the shape
  stands for one decimal digit (\<open>\d\<close>) and every other character for itself.\<close>

fun matches_shape :: "string \<Rightarrow> string \<Rightarrow> bool" where
  "matches_shape [] [] = True"
| "matches_shape (p # ps) (c # cs) =
     ((if p = CHR ''#'' then is_digit c else c = p) \<and> matches_shape ps cs)"
| "matches_shape _ _ = False"

text \<open>The lines of a text, as \<open>str.splitlines\<close> gives them for line feeds: a final line
  feed ends the last line and starts no new one.\<close>

fun lines_of :: "string \<Rightarrow> string list" where
  "lines_of [] = []"
| "lines_of (c # cs) =
     (if c = CHR 0x0A then [] # lines_of cs
      else (case lines_of cs of [] \<Rightarrow> [[c]] | l # ls \<Rightarrow> (c # l) # ls))"

text \<open>\<open>contains s t\<close>: \<open>t\<close> occurs in \<open>s\<close> as a contiguous substring.\<close>

fun contains :: "string \<Rightarrow> string \<Rightarrow> bool" where
  "contains [] t = (t = [])"
| "contains (c # s) t = (take (length t) (c # s) = t \<or> contains s t)"

text \<open>The calendar time of the specification's example scenario.\<close>

definition example_time :: datetime where
  "example_time =
     \<lparr>year = 2024, month = 3, day = 15, hour = 10, minute = 30, second = 45,
      microsecond = 0\<rparr>"

text \<open>A valid \<open>datetime\<close> with a three-digit year.\<close>

definition early_time :: datetime where
  "early_time =
     \<lparr>year = 999, month = 1, day = 2, hour = 3, minute = 4, second = 5,
      microsecond = 0\<rparr>"

definition empty_world :: world where
  "empty_world = \<lparr>files = Map.empty, open_handles = [], stdout = []\<rparr>"

text \<open>A clock read half a millisecond later, in the same calendar second, and one in the
  next second.\<close>

definition same_second_time :: datetime where
  "same_second_time =
     \<lparr>year = 2024, month = 3, day = 15, hour = 10, minute = 30, second = 45,
      microsecond = 500\<rparr>"

definition next_second_time :: datetime where
  "next_second_time =
     \<lparr>year = 2024, month = 3, day = 15, hour = 10, minute = 30, second = 46,
      microsecond = 0\<rparr>"


section \<open>Facts about formatting\<close>


lemma is_digit_digit_char: "is_digit (digit_char n)"
  unfolding is_digit_def digit_char_def by (rule nth_mem) simp

lemma digits_decimal: "list_all is_digit (decimal n)"
  by (induction n rule: decimal.induct) (subst decimal.simps, simp add: is_digit_digit_char)

lemma length_decimal: "0 < w \<Longrightarrow> n < 10 ^ w \<Longrightarrow> length (decimal n) \<le> w"
proof (induction w arbitrary: n)
  case 0
  then show ?case by simp
next
  case (Suc w)
  show ?case
  proof (cases "n < 10")
    case True
    then show ?thesis by (subst decimal.simps) simp
  next
    case False
    then have "0 < w" using Suc.prems by (cases w) auto
    moreover have "n div 10 < 10 ^ w" using Suc.prems by (simp add: less_mult_imp_div_less mult.commute)
    ultimately have "length (decimal (n div 10)) \<le> w" by (rule Suc.IH)
    with False show ?thesis by (subst decimal.simps) simp
  qed
qed

lemma length_decimal_lower: "10 ^ k \<le> n \<Longrightarrow> k < length (decimal n)"
proof (induction k arbitrary: n)
  case 0
  show ?case by (subst decimal.simps) simp
next
  case (Suc k)
  from Suc.prems have le: "10 * 10 ^ k \<le> n" by simp
  have "(10::nat) * 1 \<le> 10 * 10 ^ k" by (rule mult_le_mono2) simp
  with le have big: "\<not> n < 10" by linarith
  from Suc.prems have "10 ^ k \<le> n div 10" by simp
  then have "k < length (decimal (n div 10))" by (rule Suc.IH)
  with big show ?case by (subst decimal.simps) simp
qed

lemma length_decimal_year:
  assumes "1000 \<le> n" and "n \<le> 9999"
  shows "length (decimal n) = 4"
proof -
  have "(10::nat) ^ 3 \<le> n" using assms(1) by simp
  then have "3 < length (decimal n)" by (rule length_decimal_lower)
  moreover have "length (decimal n) \<le> 4"
    using assms(2) by (intro length_decimal) simp_all
  ultimately show ?thesis by simp
qed

lemma length_zero_pad: "0 < w \<Longrightarrow> n < 10 ^ w \<Longrightarrow> length (zero_pad w n) = w"
  using length_decimal [of w n] by (simp add: zero_pad_def)

lemma digits_zero_pad: "list_all is_digit (zero_pad w n)"
proof -
  have "is_digit (CHR ''0'')" by (simp add: is_digit_def)
  then have "list_all is_digit (replicate k (CHR ''0''))" for k
    by (induction k) simp_all
  then show ?thesis by (simp add: zero_pad_def digits_decimal)
qed

lemma digit_not_newline: "is_digit c \<Longrightarrow> c \<noteq> CHR 0x0A"
  by (auto simp: is_digit_def)

lemma digits_no_newline: "list_all is_digit a \<Longrightarrow> CHR 0x0A \<notin> set a"
  by (induction a) (auto dest: digit_not_newline)

lemma decimal_no_newline: "CHR 0x0A \<notin> set (decimal n)"
  by (rule digits_no_newline) (rule digits_decimal)

lemma zero_pad_no_newline: "CHR 0x0A \<notin> set (zero_pad w n)"
  by (rule digits_no_newline) (rule digits_zero_pad)

lemma strftime_compact:
  "strftime ''%Y%m%d_%H%M%S'' dt =
     decimal (year dt) @ zero_pad 2 (month dt) @ zero_pad 2 (day dt) @ ''_'' @
     zero_pad 2 (hour dt) @ zero_pad 2 (minute dt) @ zero_pad 2 (second dt)"
  by (simp add: directive_def)

lemma strftime_display:
  "strftime ''%Y-%m-%d %H:%M:%S'' dt =
     decimal (year dt) @ ''-'' @ zero_pad 2 (month dt) @ ''-'' @ zero_pad 2 (day dt) @ '' '' @
     zero_pad 2 (hour dt) @ '':'' @ zero_pad 2 (minute dt) @ '':'' @ zero_pad 2 (second dt)"
  by (simp add: directive_def)

lemma days_in_month_le: "days_in_month y m \<le> 31"
  by (simp add: days_in_month_def)

lemma valid_field_widths:
  assumes "valid_datetime dt"
  shows "length (zero_pad 2 (month dt)) = 2"
    and "length (zero_pad 2 (day dt)) = 2" and "length (zero_pad 2 (hour dt)) = 2"
    and "length (zero_pad 2 (minute dt)) = 2" and "length (zero_pad 2 (second dt)) = 2"
proof -
  have "day dt \<le> 31"
    using assms days_in_month_le [of "year dt" "month dt"] by (simp add: valid_datetime_def)
  then show "length (zero_pad 2 (day dt)) = 2" by (simp add: length_zero_pad)
  show "length (zero_pad 2 (month dt)) = 2"
    "length (zero_pad 2 (hour dt)) = 2" "length (zero_pad 2 (minute dt)) = 2"
    "length (zero_pad 2 (second dt)) = 2"
    using assms by (simp_all add: valid_datetime_def length_zero_pad)
qed

lemma valid_year_width:
  assumes "valid_datetime dt" and "1000 \<le> year dt"
  shows "length (decimal (year dt)) = 4"
  using assms by (intro length_decimal_year) (simp_all add: valid_datetime_def)

lemma shape_digits_append:
  "list_all is_digit a \<Longrightarrow>
     matches_shape (replicate (length a) (CHR ''#'') @ ps) (a @ cs) = matches_shape ps cs"
  by (induction a) simp_all

lemma shape_digits_only:
  "list_all is_digit a \<Longrightarrow> matches_shape (replicate (length a) (CHR ''#'')) a"
  using shape_digits_append [of a "[]" "[]"] by simp

lemma shape_digits2_only:
  assumes "length a = 2" and "list_all is_digit a"
  shows "matches_shape [CHR ''#'', CHR ''#''] a"
proof -
  have "replicate (length a) (CHR ''#'') = [CHR ''#'', CHR ''#'']"
    by (simp add: assms(1) numeral_2_eq_2)
  with shape_digits_only [OF assms(2)] show ?thesis by simp
qed

lemma shape_digits2:
  assumes "length a = 2" and "list_all is_digit a"
  shows "matches_shape (CHR ''#'' # CHR ''#'' # ps) (a @ cs) = matches_shape ps cs"
proof -
  have "replicate (length a) (CHR ''#'') = [CHR ''#'', CHR ''#'']"
    by (simp add: assms(1) numeral_2_eq_2)
  with shape_digits_append [OF assms(2), of ps cs] show ?thesis by simp
qed

lemma shape_digits4:
  assumes "length a = 4" and "list_all is_digit a"
  shows "matches_shape (CHR ''#'' # CHR ''#'' # CHR ''#'' # CHR ''#'' # ps) (a @ cs) =
     matches_shape ps cs"
proof -
  have "length a = Suc (Suc (Suc (Suc 0)))" using assms(1) by simp
  then have "replicate (length a) (CHR ''#'') = [CHR ''#'', CHR ''#'', CHR ''#'', CHR ''#'']"
    by simp
  with shape_digits_append [OF assms(2), of ps cs] show ?thesis by simp
qed

lemma filename_shape:
  assumes "valid_datetime T1" and "1000 \<le> year T1"
  shows "matches_shape ''hello_world_########_######.md'' (hello_filename T1)"
  unfolding hello_filename_def Let_def strftime_compact
  by (simp add: shape_digits2 shape_digits4 valid_field_widths [OF assms(1)]
      valid_year_width [OF assms] digits_zero_pad digits_decimal)

lemma display_shape:
  assumes "valid_datetime T2" and "1000 \<le> year T2"
  shows "matches_shape ''####-##-## ##:##:##'' (strftime ''%Y-%m-%d %H:%M:%S'' T2)"
  unfolding strftime_display
  by (simp add: shape_digits2 shape_digits4 shape_digits2_only valid_field_widths [OF assms(1)]
      valid_year_width [OF assms] digits_zero_pad digits_decimal)

lemma lines_of_line:
  "CHR 0x0A \<notin> set a \<Longrightarrow> lines_of (a @ CHR 0x0A # rest) = a # lines_of rest"
  by (induction a) auto

lemma display_no_newline: "CHR 0x0A \<notin> set (strftime ''%Y-%m-%d %H:%M:%S'' dt)"
  unfolding strftime_display by (simp add: zero_pad_no_newline decimal_no_newline)

lemma compact_no_newline: "CHR 0x0A \<notin> set (strftime ''%Y%m%d_%H%M%S'' dt)"
  unfolding strftime_compact by (simp add: zero_pad_no_newline decimal_no_newline)

lemma contains_here: "contains (t @ b) t"
proof (cases "t @ b")
  case Nil
  then show ?thesis by simp
next
  case (Cons c s)
  have "take (length t) (t @ b) = t" by simp
  then have "take (length t) (c # s) = t" by (simp only: Cons)
  then have "contains (c # s) t" by simp
  then show ?thesis by (simp only: Cons)
qed

lemma contains_later: "contains (a @ t @ b) t"
  by (induction a) (auto simp: contains_here)

lemma lines_of_template:
  assumes "CHR 0x0A \<notin> set ts"
  shows "lines_of (''# Hello World'' @ [CHR 0x0A, CHR 0x0A] @ ''Generated at: '' @ ts @
           [CHR 0x0A, CHR 0x0A] @ ''**Message:** Hello World!'' @ [CHR 0x0A]) =
         [''# Hello World'', [], ''Generated at: '' @ ts, [], ''**Message:** Hello World!'']"
proof -
  have "CHR 0x0A \<notin> set (''Generated at: '' @ ts)" using assms by simp
  then have "lines_of ((''Generated at: '' @ ts) @
          CHR 0x0A # CHR 0x0A # ''**Message:** Hello World!'' @ [CHR 0x0A]) =
        (''Generated at: '' @ ts) #
          lines_of (CHR 0x0A # ''**Message:** Hello World!'' @ [CHR 0x0A])"
    by (rule lines_of_line)
  then show ?thesis by simp
qed

lemma content_lines:
  "lines_of (hello_content T2) =
     [''# Hello World'', [], ''Generated at: '' @ strftime ''%Y-%m-%d %H:%M:%S'' T2, [],
      ''**Message:** Hello World!'']"
  unfolding hello_content_def by (rule lines_of_template) (rule display_no_newline)

lemma content_contains: "contains (hello_content T2) ''**Message:** Hello World!''"
proof -
  have "contains ((''# Hello World'' @ [CHR 0x0A, CHR 0x0A] @
     ''Generated at: '' @ strftime ''%Y-%m-%d %H:%M:%S'' T2 @ [CHR 0x0A, CHR 0x0A]) @
     ''**Message:** Hello World!'' @ [CHR 0x0A]) ''**Message:** Hello World!''"
    by (rule contains_later)
  then show ?thesis by (simp only: hello_content_def append_assoc)
qed

section \<open>Facts about the runs of the program\<close>

lemma create_no_fault:
  "create_hello_world_file T1 T2 NoFault w =
     (Inr (hello_filename T1), w\<lparr>files := (files w)(hello_filename T1 \<mapsto> hello_content T2)\<rparr>)"
  by (simp add: create_hello_world_file_def open_w_def f_write_def f_close_def
      current_text_def Let_def)

lemma create_open_fails:
  "create_hello_world_file T1 T2 OpenFails w = (Inl FileSystemError, w)"
  by (simp add: create_hello_world_file_def open_w_def Let_def)

lemma create_write_fails:
  "create_hello_world_file T1 T2 (WriteFails k) w =
     (Inl FileSystemError,
      w\<lparr>files := (files w)(hello_filename T1 \<mapsto> take k (hello_content T2))\<rparr>)"
  by (simp add: create_hello_world_file_def open_w_def f_write_def f_close_def
      current_text_def Let_def)

lemma filename_example: "hello_filename example_time = ''hello_world_20240315_103045.md''"
  by code_simp

lemma content_example:
  "hello_content example_time =
     ''# Hello World'' @ [CHR 0x0A, CHR 0x0A] @ ''Generated at: 2024-03-15 10:30:45'' @
     [CHR 0x0A, CHR 0x0A] @ ''**Message:** Hello World!'' @ [CHR 0x0A]"
  by code_simp

lemma valid_example: "valid_datetime example_time"
  by (simp add: valid_datetime_def example_time_def days_in_month_def)

lemma year_example: "1000 \<le> year example_time"
  by (simp add: example_time_def)

text \<open>In the year 999 the name and the timestamp are one character shorter.\<close>

lemma valid_early: "valid_datetime early_time"
  by (simp add: valid_datetime_def early_time_def days_in_month_def)

lemma filename_early: "hello_filename early_time = ''hello_world_9990102_030405.md''"
  by code_simp

lemma display_early: "strftime ''%Y-%m-%d %H:%M:%S'' early_time = ''999-01-02 03:04:05''"
  by code_simp

lemma filename_no_newline: "CHR 0x0A \<notin> set (hello_filename T1)"
  unfolding hello_filename_def Let_def using compact_no_newline [of T1] by simp

lemma create_success_iff:
  "create_hello_world_file T1 T2 flt w = (Inr fn, w') \<longleftrightarrow>
     flt = NoFault \<and> fn = hello_filename T1 \<and>
     w' = w\<lparr>files := (files w)(hello_filename T1 \<mapsto> hello_content T2)\<rparr>"
  by (cases flt) (auto simp: create_no_fault create_open_fails create_write_fails)

lemma create_failure_iff:
  "create_hello_world_file T1 T2 flt w = (Inl e, w') \<longleftrightarrow>
     (flt = OpenFails \<and> w' = w) \<or>
     (\<exists>k. flt = WriteFails k \<and>
        w' = w\<lparr>files := (files w)(hello_filename T1 \<mapsto> take k (hello_content T2))\<rparr>)"
  by (cases flt; cases e) (auto simp: create_no_fault create_open_fails create_write_fails)

lemma content_nonempty: "hello_content T2 \<noteq> []"
  by (simp add: hello_content_def)

lemma display_example: "strftime ''%Y-%m-%d %H:%M:%S'' example_time = ''2024-03-15 10:30:45''"
  by code_simp

lemma run_example:
  "create_hello_world_file example_time example_time NoFault empty_world =
     (Inr ''hello_world_20240315_103045.md'',
      snd (create_hello_world_file example_time example_time NoFault empty_world))"
  by (simp add: create_no_fault filename_example)

lemma filename_same_second:
  "hello_filename same_second_time = ''hello_world_20240315_103045.md''"
  by code_simp

lemma compact_same_second:
  "strftime ''%Y%m%d_%H%M%S'' example_time = strftime ''%Y%m%d_%H%M%S'' same_second_time"
  by code_simp

lemma content_next_second:
  "hello_content next_second_time =
     ''# Hello World'' @ [CHR 0x0A, CHR 0x0A] @ ''Generated at: 2024-03-15 10:30:46'' @
     [CHR 0x0A, CHR 0x0A] @ ''**Message:** Hello World!'' @ [CHR 0x0A]"
  by code_simp

lemma run_second:
  "create_hello_world_file same_second_time next_second_time NoFault
     (snd (create_hello_world_file example_time example_time NoFault empty_world)) =
     (Inr ''hello_world_20240315_103045.md'',
      snd (create_hello_world_file same_second_time next_second_time NoFault
        (snd (create_hello_world_file example_time example_time NoFault empty_world))))"
  by (simp add: create_no_fault filename_same_second)

lemma run_write_fails:
  "create_hello_world_file example_time example_time (WriteFails 13) empty_world =
     (Inl FileSystemError,
      snd (create_hello_world_file example_time example_time (WriteFails 13) empty_world))"
  by (simp add: create_write_fails)

lemma content_prefix_example: "take 13 (hello_content example_time) = ''# Hello World''"
  by (simp add: content_example)

lemma lines_of_single:
  "CHR 0x0A \<notin> set a \<Longrightarrow> lines_of (a @ [CHR 0x0A]) = [a]"
  using lines_of_line [of a "[]"] by simp

lemma program_success_iff:
  "program T1 T2 flt w = (0, w') \<longleftrightarrow>
     flt = NoFault \<and>
     w' = print (''Created file: '' @ hello_filename T1)
            (w\<lparr>files := (files w)(hello_filename T1 \<mapsto> hello_content T2)\<rparr>)"
  by (cases flt)
    (auto simp: program_def hello_world_module_def create_no_fault create_open_fails
      create_write_fails)

lemma program_example:
  "program example_time example_time NoFault empty_world =
     (0, snd (program example_time example_time NoFault empty_world))"
  by (simp add: program_def hello_world_module_def create_no_fault)

section \<open>The claims of the specification\<close>

text \<open>
  Claim C1. When both clock reads return 2024-03-15 10:30:45 and the filesystem does not
  fail, \<open>create_hello_world_file\<close> returns \<open>hello_world_20240315_103045.md\<close>, and
  the only change to the world is that the file of that name holds the heading, an empty
  line, \<open>Generated at: 2024-03-15 10:30:45\<close>, an empty line and the message line.
\<close>

theorem example_scenario:
  "create_hello_world_file example_time example_time NoFault w =
     (Inr ''hello_world_20240315_103045.md'',
      w\<lparr>files := (files w)(''hello_world_20240315_103045.md'' \<mapsto>
         ''# Hello World'' @ [CHR 0x0A, CHR 0x0A] @ ''Generated at: 2024-03-15 10:30:45'' @
         [CHR 0x0A, CHR 0x0A] @ ''**Message:** Hello World!'' @ [CHR 0x0A])\<rparr>) \<and>
   lines_of (''# Hello World'' @ [CHR 0x0A, CHR 0x0A] @ ''Generated at: 2024-03-15 10:30:45'' @
         [CHR 0x0A, CHR 0x0A] @ ''**Message:** Hello World!'' @ [CHR 0x0A]) =
     [''# Hello World'', [], ''Generated at: 2024-03-15 10:30:45'', [],
      ''**Message:** Hello World!'']"
  by (simp add: create_no_fault filename_example content_example)


text \<open>
  Claim C2. For every second clock read \<open>T2\<close> from the year 1000 on (a system clock reads
  no earlier year), the content has five lines: the heading
  \<open># Hello World\<close>, an empty line, \<open>Generated at: \<close> followed by \<open>T2\<close> rendered as
  \<open>YYYY-MM-DD HH:MM:SS\<close>, an empty line, and \<open>**Message:** Hello World!\<close>, which is
  therefore a substring of the content. It is the text the file holds when the call succeeds.
\<close>

theorem content_is_markdown_document:
  assumes "valid_datetime T2" and "1000 \<le> year T2"
  shows "lines_of (hello_content T2) =
       [''# Hello World'', [], ''Generated at: '' @ strftime ''%Y-%m-%d %H:%M:%S'' T2, [],
        ''**Message:** Hello World!''] \<and>
     strftime ''%Y-%m-%d %H:%M:%S'' T2 =
       decimal (year T2) @ ''-'' @ zero_pad 2 (month T2) @ ''-'' @ zero_pad 2 (day T2) @
       '' '' @ zero_pad 2 (hour T2) @ '':'' @ zero_pad 2 (minute T2) @ '':'' @
       zero_pad 2 (second T2) \<and>
     matches_shape ''####-##-## ##:##:##'' (strftime ''%Y-%m-%d %H:%M:%S'' T2) \<and>
     contains (hello_content T2) ''**Message:** Hello World!'' \<and>
     files (snd (create_hello_world_file T1 T2 NoFault w)) (hello_filename T1) =
       Some (hello_content T2)"
proof -
  have "files (snd (create_hello_world_file T1 T2 NoFault w)) (hello_filename T1) =
       Some (hello_content T2)"
    by (simp add: create_no_fault)
  with content_lines [of T2] strftime_display [of T2] display_shape [OF assms]
    content_contains [of T2]
  show ?thesis by (intro conjI)
qed

text \<open>
  The example time is a valid \<open>datetime\<close> of the year 2024; there the five lines are those
  of the example scenario.
\<close>

theorem content_is_markdown_document_witness:
  "valid_datetime example_time \<and> 1000 \<le> year example_time \<and>
   lines_of (hello_content example_time) =
     [''# Hello World'', [], ''Generated at: 2024-03-15 10:30:45'', [],
      ''**Message:** Hello World!''] \<and>
   matches_shape ''####-##-## ##:##:##'' ''2024-03-15 10:30:45'' \<and>
   contains (hello_content example_time) ''**Message:** Hello World!''"
proof -
  note th = content_is_markdown_document [OF valid_example year_example,
    of example_time empty_world]
  have "lines_of (hello_content example_time) =
     [''# Hello World'', [], ''Generated at: 2024-03-15 10:30:45'', [],
      ''**Message:** Hello World!'']"
    using th [THEN conjunct1] by (simp only: display_example append.simps)
  moreover have "matches_shape ''####-##-## ##:##:##'' ''2024-03-15 10:30:45''"
    using th [THEN conjunct2, THEN conjunct2, THEN conjunct1] by (simp only: display_example)
  moreover note th [THEN conjunct2, THEN conjunct2, THEN conjunct2, THEN conjunct1]
  ultimately show ?thesis using valid_example year_example by (intro conjI)
qed

text \<open>
  Claim C3. Whenever \<open>create_hello_world_file\<close> returns a file name, and the first clock
  read is from the year 1000 on (a system clock reads no earlier year), the name is
  \<open>hello_world_\<close>, the first clock read formatted as \<open>YYYYMMDD_HHMMSS\<close>, and \<open>.md\<close>;
  it matches \<open>hello_world_\d{8}_\d{6}\.md\<close>.
\<close>

theorem returned_filename_pattern:
  assumes "create_hello_world_file T1 T2 flt w = (Inr fn, w')" and "valid_datetime T1"
    and "1000 \<le> year T1"
  shows "fn = ''hello_world_'' @ strftime ''%Y%m%d_%H%M%S'' T1 @ ''.md'' \<and>
     strftime ''%Y%m%d_%H%M%S'' T1 =
       decimal (year T1) @ zero_pad 2 (month T1) @ zero_pad 2 (day T1) @ ''_'' @
       zero_pad 2 (hour T1) @ zero_pad 2 (minute T1) @ zero_pad 2 (second T1) \<and>
     matches_shape ''hello_world_########_######.md'' fn"
proof -
  from assms(1) have fn: "fn = hello_filename T1" by (simp add: create_success_iff)
  then have "fn = ''hello_world_'' @ strftime ''%Y%m%d_%H%M%S'' T1 @ ''.md''"
    by (simp only: hello_filename_def Let_def)
  moreover note strftime_compact [of T1]
  moreover have "matches_shape ''hello_world_########_######.md'' fn"
    unfolding fn using assms(2,3) by (rule filename_shape)
  ultimately show ?thesis by (intro conjI)
qed

text \<open>
  At the example time the call returns \<open>hello_world_20240315_103045.md\<close>, of that shape.
\<close>

theorem returned_filename_pattern_witness:
  "valid_datetime example_time \<and> 1000 \<le> year example_time \<and>
   fst (create_hello_world_file example_time example_time NoFault empty_world) =
     Inr ''hello_world_20240315_103045.md'' \<and>
   matches_shape ''hello_world_########_######.md'' ''hello_world_20240315_103045.md''"
proof -
  note th = returned_filename_pattern [OF run_example valid_example year_example]
  have "fst (create_hello_world_file example_time example_time NoFault empty_world) =
     Inr ''hello_world_20240315_103045.md''"
    by (simp add: create_no_fault filename_example)
  with valid_example year_example th [THEN conjunct2, THEN conjunct2]
  show ?thesis by (intro conjI)
qed

text \<open>
  Claim C4. After a successful call the file named by the returned name exists and holds
  exactly the content, the whole of it and nothing else; no other file has changed.
\<close>

theorem file_holds_content:
  assumes "create_hello_world_file T1 T2 flt w = (Inr fn, w')"
  shows "fn = hello_filename T1 \<and> files w' fn = Some (hello_content T2) \<and>
     files w' = (files w)(fn \<mapsto> hello_content T2)"
  using assms by (simp add: create_success_iff)

text \<open>
  The successful call at the example time, in an empty directory.
\<close>

theorem file_holds_content_witness:
  "fst (create_hello_world_file example_time example_time NoFault empty_world) =
     Inr ''hello_world_20240315_103045.md'' \<and>
   files (snd (create_hello_world_file example_time example_time NoFault empty_world))
     ''hello_world_20240315_103045.md'' =
     Some (''# Hello World'' @ [CHR 0x0A, CHR 0x0A] @ ''Generated at: 2024-03-15 10:30:45'' @
       [CHR 0x0A, CHR 0x0A] @ ''**Message:** Hello World!'' @ [CHR 0x0A])"
proof -
  note th = file_holds_content [OF run_example]
  have "fst (create_hello_world_file example_time example_time NoFault empty_world) =
     Inr ''hello_world_20240315_103045.md''"
    by (simp add: create_no_fault filename_example)
  moreover have "files (snd (create_hello_world_file example_time example_time NoFault empty_world))
     ''hello_world_20240315_103045.md'' =
     Some (''# Hello World'' @ [CHR 0x0A, CHR 0x0A] @ ''Generated at: 2024-03-15 10:30:45'' @
       [CHR 0x0A, CHR 0x0A] @ ''**Message:** Hello World!'' @ [CHR 0x0A])"
    using th [THEN conjunct2, THEN conjunct1] by (simp only: content_example)
  ultimately show ?thesis by (intro conjI)
qed

text \<open>
  Claim C5. Two successive successful calls whose first clock reads format to the same
  \<open>YYYYMMDD_HHMMSS\<close> string return the same file name; after the first call the file holds
  the first content, after the second it holds the second content only, not the first
  followed by the second.
\<close>

theorem same_second_overwrites:
  assumes "strftime ''%Y%m%d_%H%M%S'' T1a = strftime ''%Y%m%d_%H%M%S'' T1b"
    and "create_hello_world_file T1a T2a fa w = (Inr fn1, w1)"
    and "create_hello_world_file T1b T2b fb w1 = (Inr fn2, w2)"
  shows "fn1 = fn2 \<and> files w1 fn1 = Some (hello_content T2a) \<and>
     files w2 fn2 = Some (hello_content T2b) \<and>
     files w2 fn2 \<noteq> Some (hello_content T2a @ hello_content T2b)"
proof -
  from assms(1) have same: "hello_filename T1a = hello_filename T1b"
    by (simp only: hello_filename_def Let_def)
  from assms(2) have one: "fn1 = hello_filename T1a" "files w1 fn1 = Some (hello_content T2a)"
    by (simp_all add: create_success_iff)
  from assms(3) have two: "fn2 = hello_filename T1b" "files w2 fn2 = Some (hello_content T2b)"
    by (simp_all add: create_success_iff)
  have "hello_content T2b \<noteq> hello_content T2a @ hello_content T2b"
    using content_nonempty [of T2a] by simp
  with same one two show ?thesis by simp
qed

text \<open>
  Two calls within the second 10:30:45, the second one building its content at 10:30:46.
\<close>

theorem same_second_overwrites_witness:
  "strftime ''%Y%m%d_%H%M%S'' example_time = strftime ''%Y%m%d_%H%M%S'' same_second_time \<and>
   fst (create_hello_world_file example_time example_time NoFault empty_world) =
     Inr ''hello_world_20240315_103045.md'' \<and>
   fst (create_hello_world_file same_second_time next_second_time NoFault
     (snd (create_hello_world_file example_time example_time NoFault empty_world))) =
     Inr ''hello_world_20240315_103045.md'' \<and>
   files (snd (create_hello_world_file same_second_time next_second_time NoFault
     (snd (create_hello_world_file example_time example_time NoFault empty_world))))
     ''hello_world_20240315_103045.md'' =
     Some (''# Hello World'' @ [CHR 0x0A, CHR 0x0A] @ ''Generated at: 2024-03-15 10:30:46'' @
       [CHR 0x0A, CHR 0x0A] @ ''**Message:** Hello World!'' @ [CHR 0x0A])"
proof -
  note th = same_second_overwrites [OF compact_same_second run_example run_second]
  have "fst (create_hello_world_file example_time example_time NoFault empty_world) =
     Inr ''hello_world_20240315_103045.md''"
    by (simp add: create_no_fault filename_example)
  moreover have "fst (create_hello_world_file same_second_time next_second_time NoFault
     (snd (create_hello_world_file example_time example_time NoFault empty_world))) =
     Inr ''hello_world_20240315_103045.md''"
    by (simp add: create_no_fault filename_same_second)
  moreover have "files (snd (create_hello_world_file same_second_time next_second_time NoFault
     (snd (create_hello_world_file example_time example_time NoFault empty_world))))
     ''hello_world_20240315_103045.md'' =
     Some (''# Hello World'' @ [CHR 0x0A, CHR 0x0A] @ ''Generated at: 2024-03-15 10:30:46'' @
       [CHR 0x0A, CHR 0x0A] @ ''**Message:** Hello World!'' @ [CHR 0x0A])"
    using th [THEN conjunct2, THEN conjunct2, THEN conjunct1]
    by (simp only: content_next_second)
  ultimately show ?thesis using compact_same_second by (intro conjI)
qed

text \<open>
  Claim C6 says that a failed write leaves the filesystem as if nothing had been written.
  The program has no mechanism for that: \<open>open(filename, 'w')\<close> creates or truncates the
  file before anything is written, and nothing removes it when the write fails. In an empty
  directory, a write that fails after 13 characters leaves a file that did not exist before
  and holds only the heading.
\<close>

theorem write_not_atomic_counterexample:
  "fst (create_hello_world_file example_time example_time (WriteFails 13) empty_world) =
     Inl FileSystemError \<and>
   files empty_world ''hello_world_20240315_103045.md'' = None \<and>
   files (snd (create_hello_world_file example_time example_time (WriteFails 13) empty_world))
     ''hello_world_20240315_103045.md'' = Some ''# Hello World'' \<and>
   hello_content example_time \<noteq> ''# Hello World''"
  by (simp add: create_write_fails filename_example content_prefix_example content_example
      empty_world_def)

text \<open>
  Claim C6, amended. A failed call leaves the filesystem unchanged only when the file could
  not be opened. When it was opened and the write fails, the file of the computed name
  exists afterwards and holds the part of the content that reached it, a prefix of the
  content, whatever it held before; every other file is unchanged.
\<close>

theorem failed_call_leaves_prefix:
  assumes "create_hello_world_file T1 T2 flt w = (Inl e, w')"
  shows "(flt = OpenFails \<and> files w' = files w) \<or>
     (\<exists>k. flt = WriteFails k \<and>
        files w' = (files w)(hello_filename T1 \<mapsto> take k (hello_content T2)))"
  using assms by (auto simp: create_failure_iff)

text \<open>
  The failing write after 13 characters, in an empty directory.
\<close>

theorem failed_call_leaves_prefix_witness:
  "fst (create_hello_world_file example_time example_time (WriteFails 13) empty_world) =
     Inl FileSystemError \<and>
   files (snd (create_hello_world_file example_time example_time (WriteFails 13) empty_world)) =
     (files empty_world)(''hello_world_20240315_103045.md'' \<mapsto> ''# Hello World'')"
  using failed_call_leaves_prefix [OF run_write_fails]
  by (simp add: create_write_fails filename_example content_prefix_example)

text \<open>
  Claim C7. The call fails, with the only error kind there is, exactly when the filesystem
  fails. The program then ends with exit status 1 in the world the failed call left: nothing
  is retried, recovered or printed. Without a fault the exit status is 0.
\<close>

theorem uncaught_failure_exit_status:
  "(fst (create_hello_world_file T1 T2 flt w) = Inl FileSystemError) = (flt \<noteq> NoFault) \<and>
   fst (program T1 T2 flt w) = (if flt = NoFault then 0 else 1) \<and>
   snd (program T1 T2 flt w) =
     (if flt = NoFault
      then print (''Created file: '' @ hello_filename T1)
             (snd (create_hello_world_file T1 T2 flt w))
      else snd (create_hello_world_file T1 T2 flt w))"
  by (cases flt)
    (simp_all add: program_def hello_world_module_def create_no_fault create_open_fails
      create_write_fails)

text \<open>
  The three kinds of run at the example time.
\<close>

theorem uncaught_failure_exit_status_witness:
  "fst (create_hello_world_file example_time example_time OpenFails empty_world) =
     Inl FileSystemError \<and>
   fst (program example_time example_time OpenFails empty_world) = 1 \<and>
   snd (program example_time example_time OpenFails empty_world) = empty_world \<and>
   fst (program example_time example_time (WriteFails 13) empty_world) = 1 \<and>
   fst (program example_time example_time NoFault empty_world) = 0"
  using uncaught_failure_exit_status [of example_time example_time OpenFails empty_world]
    uncaught_failure_exit_status [of example_time example_time "WriteFails 13" empty_world]
    uncaught_failure_exit_status [of example_time example_time NoFault empty_world]
  by (simp add: create_open_fails)

text \<open>
  Claim C8. A run that ends with exit status 0 has appended to standard output exactly
  \<open>Created file: \<close>, the file name the call returned, and a line feed: one line.
\<close>

theorem prints_created_file_line:
  assumes "program T1 T2 flt w = (0, w')"
  shows "\<exists>fn w1. create_hello_world_file T1 T2 flt w = (Inr fn, w1) \<and>
     stdout w' = stdout w @ ''Created file: '' @ fn @ [CHR 0x0A] \<and>
     lines_of (''Created file: '' @ fn @ [CHR 0x0A]) = [''Created file: '' @ fn]"
proof -
  from assms have flt: "flt = NoFault"
    and w': "w' = print (''Created file: '' @ hello_filename T1)
            (w\<lparr>files := (files w)(hello_filename T1 \<mapsto> hello_content T2)\<rparr>)"
    by (simp_all add: program_success_iff)
  have "CHR 0x0A \<notin> set (''Created file: '' @ hello_filename T1)"
    using filename_no_newline [of T1] by simp
  then have "lines_of ((''Created file: '' @ hello_filename T1) @ [CHR 0x0A]) =
      [''Created file: '' @ hello_filename T1]"
    by (rule lines_of_single)
  then have one: "lines_of (''Created file: '' @ hello_filename T1 @ [CHR 0x0A]) =
      [''Created file: '' @ hello_filename T1]"
    by (simp only: append_assoc)
  have "stdout w' = stdout w @ ''Created file: '' @ hello_filename T1 @ [CHR 0x0A]"
    by (simp add: w' print_def)
  with one create_no_fault [of T1 T2 w] show ?thesis unfolding flt by blast
qed

text \<open>
  The successful run at the example time prints \<open>Created file: hello_world_20240315_103045.md\<close>.
\<close>

theorem prints_created_file_line_witness:
  "fst (program example_time example_time NoFault empty_world) = 0 \<and>
   stdout (snd (program example_time example_time NoFault empty_world)) =
     ''Created file: hello_world_20240315_103045.md'' @ [CHR 0x0A]"
  using prints_created_file_line [OF program_example]
  by (simp add: create_no_fault filename_example empty_world_def program_def
      hello_world_module_def)

text \<open>
  Claim C9. Opening the file adds a handle (unless opening fails, which adds none); when the
  call is over, whether it returned or raised, the open handles are those from before the
  call.
\<close>

theorem handle_released:
  "open_handles (snd (open_w NoFault fn w)) = fn # open_handles w \<and>
   open_handles (snd (open_w (WriteFails k) fn w)) = fn # open_handles w \<and>
   open_handles (snd (open_w OpenFails fn w)) = open_handles w \<and>
   open_handles (snd (create_hello_world_file T1 T2 flt w)) = open_handles w"
  by (cases flt)
    (simp_all add: open_w_def create_no_fault create_open_fails create_write_fails)

text \<open>
  Claim C10. After a successful call the file ends with the message line followed by a line
  feed, its last character.
\<close>

theorem content_ends_with_newline:
  assumes "create_hello_world_file T1 T2 flt w = (Inr fn, w')"
  shows "\<exists>body. files w' fn = Some (body @ ''**Message:** Hello World!'' @ [CHR 0x0A]) \<and>
     last (body @ ''**Message:** Hello World!'' @ [CHR 0x0A]) = CHR 0x0A"
proof -
  from assms have "files w' fn = Some (hello_content T2)"
    by (simp add: create_success_iff)
  then have "files w' fn = Some ((''# Hello World'' @ [CHR 0x0A, CHR 0x0A] @
     ''Generated at: '' @ strftime ''%Y-%m-%d %H:%M:%S'' T2 @ [CHR 0x0A, CHR 0x0A]) @
     ''**Message:** Hello World!'' @ [CHR 0x0A])"
    by (simp only: hello_content_def append_assoc)
  moreover have "last (body @ ''**Message:** Hello World!'' @ [CHR 0x0A]) = CHR 0x0A" for body
    by simp
  ultimately show ?thesis by blast
qed

text \<open>
  The successful call at the example time.
\<close>

theorem content_ends_with_newline_witness:
  "fst (create_hello_world_file example_time example_time NoFault empty_world) =
     Inr ''hello_world_20240315_103045.md'' \<and>
   (\<exists>body. files (snd (create_hello_world_file example_time example_time NoFault empty_world))
     ''hello_world_20240315_103045.md'' =
     Some (body @ ''**Message:** Hello World!'' @ [CHR 0x0A]))"
proof -
  have "fst (create_hello_world_file example_time example_time NoFault empty_world) =
     Inr ''hello_world_20240315_103045.md''"
    by (simp add: create_no_fault filename_example)
  moreover from content_ends_with_newline [OF run_example]
  have "\<exists>body. files (snd (create_hello_world_file example_time example_time NoFault empty_world))
     ''hello_world_20240315_103045.md'' =
     Some (body @ ''**Message:** Hello World!'' @ [CHR 0x0A])"
    by blast
  ultimately show ?thesis by (intro conjI)
qed

end
